theory Spec2Isabelle
  imports Main "HOL-Library.Finite_Map"
begin

section \<open>JavaScript values\<close>

text \<open>
  Every codec reads and writes values of TypeScript's type \<^verbatim>\<open>any\<close>. The model is the
  type of the values a document tree is made of, together with \<^verbatim>\<open>undefined\<close>, with the
  functions of the runtime (a read of an inherited member such as \<^verbatim>\<open>constructor\<close> returns
  one), and with the objects whose prototype an assignment to \<^verbatim>\<open>__proto__\<close> has set.

  A JavaScript number is an IEEE double. The codecs never compute with a number: they
  read its runtime tag and its truthiness only, so the model keeps an integer payload
  and the value \<^verbatim>\<open>NaN\<close> (the falsy numbers are zero and \<^verbatim>\<open>NaN\<close>).

  \<open>JObj m\<close> is an object with the own properties \<open>m\<close> whose prototype is
  \<^verbatim>\<open>Object.prototype\<close>, as an object literal and \<^verbatim>\<open>JSON.parse\<close> create it. \<open>JObjP p m\<close> is
  an object with the own properties \<open>m\<close> whose prototype is \<open>p\<close>, an object, a function
  or \<^verbatim>\<open>null\<close>. \<open>JFunction f\<close> is the function of the runtime of that name.
\<close>

datatype jsnum = Fin int | NaN

datatype jsval =
    JUndefined
  | JNull
  | JBool bool
  | JNum jsnum
  | JStr string
  | JArr "jsval list"
  | JObj "(string, jsval) fmap"
  | JObjP jsval "(string, jsval) fmap"
  | JFunction string

text \<open>The exceptions the library's own code can raise or let through.\<close>

datatype exn = TypeError | SyntaxError

text \<open>The operator \<^verbatim>\<open>typeof\<close>: \<^verbatim>\<open>null\<close> and arrays are of type \<^verbatim>\<open>'object'\<close>.\<close>

fun typeof :: "jsval \<Rightarrow> string" where
  "typeof JUndefined = ''undefined''"
| "typeof JNull = ''object''"
| "typeof (JBool b) = ''boolean''"
| "typeof (JNum n) = ''number''"
| "typeof (JStr s) = ''string''"
| "typeof (JArr xs) = ''object''"
| "typeof (JObj m) = ''object''"
| "typeof (JObjP p m) = ''object''"
| "typeof (JFunction f) = ''function''"

text \<open>Truthiness, as the operator \<^verbatim>\<open>!\<close> reads it.\<close>

fun truthy :: "jsval \<Rightarrow> bool" where
  "truthy JUndefined = False"
| "truthy JNull = False"
| "truthy (JBool b) = b"
| "truthy (JNum (Fin n)) = (n \<noteq> 0)"
| "truthy (JNum NaN) = False"
| "truthy (JStr s) = (s \<noteq> [])"
| "truthy (JArr xs) = True"
| "truthy (JObj m) = True"
| "truthy (JObjP p m) = True"
| "truthy (JFunction f) = True"

fun isArray :: "jsval \<Rightarrow> bool" where
  "isArray (JArr xs) = True"
| "isArray v = False"

text \<open>
  A property key is an array index when it is the canonical decimal numeral of a number
  below 4294967295: digits only, and no leading zero unless the key is \<^verbatim>\<open>"0"\<close>.
\<close>

definition digit :: "char \<Rightarrow> nat option" where
  "digit c = (let n = (of_char c :: nat) in if 48 \<le> n \<and> n \<le> 57 then Some (n - 48) else None)"

fun digits :: "nat \<Rightarrow> string \<Rightarrow> nat option" where
  "digits acc [] = Some acc"
| "digits acc (c # cs) = (case digit c of None \<Rightarrow> None | Some d \<Rightarrow> digits (10 * acc + d) cs)"

definition arrayIndex :: "string \<Rightarrow> nat option" where
  "arrayIndex key =
     (case key of
        [] \<Rightarrow> None
      | c # cs \<Rightarrow>
          if c = CHR ''0'' \<and> cs \<noteq> [] then None
          else (case digits 0 key of
                  None \<Rightarrow> None
                | Some n \<Rightarrow> if n < 4294967295 then Some n else None))"

subsection \<open>Reading a property\<close>

text \<open>
  The read \<^verbatim>\<open>data[key]\<close> looks for an own property of \<open>data\<close> first and then along the
  prototype chain. The chain of every value other than an object without prototype ends
  in objects that the runtime provides (\<^verbatim>\<open>Object.prototype\<close> and, before it,
  \<^verbatim>\<open>Array.prototype\<close> for an array, and so on; for a function, the function object itself
  comes first). What these hold belongs to the runtime, not to the library: it is the
  parameter \<open>rt\<close>, which for each of them and each key gives the value that a read
  continued there finds, if any. For the key \<^verbatim>\<open>__proto__\<close> this is the accessor of
  \<^verbatim>\<open>Object.prototype\<close>: it returns the prototype of the value that is read.
\<close>

datatype builtin =
    ObjectPrototype
  | ArrayPrototype
  | StringPrototype
  | NumberPrototype
  | BooleanPrototype
  | Function string

type_synonym runtime = "builtin \<Rightarrow> string \<Rightarrow> jsval option"

text \<open>
  The part of the search that the value itself decides: \<open>Inl\<close> of the own property found
  (or of nothing, where the chain ends in \<^verbatim>\<open>null\<close>), or \<open>Inr\<close> of the object of the runtime
  in which the search goes on.
\<close>

fun chainLookup :: "jsval \<Rightarrow> string \<Rightarrow> jsval option + builtin" where
  "chainLookup JUndefined key = Inl None"
| "chainLookup JNull key = Inl None"
| "chainLookup (JBool b) key = Inr BooleanPrototype"
| "chainLookup (JNum n) key = Inr NumberPrototype"
| "chainLookup (JStr s) key =
     (if key = ''length'' then Inl (Some (JNum (Fin (int (length s)))))
      else case arrayIndex key of
             None \<Rightarrow> Inr StringPrototype
           | Some i \<Rightarrow> if i < length s then Inl (Some (JStr [s ! i])) else Inr StringPrototype)"
| "chainLookup (JArr xs) key =
     (if key = ''length'' then Inl (Some (JNum (Fin (int (length xs)))))
      else case arrayIndex key of
             None \<Rightarrow> Inr ArrayPrototype
           | Some i \<Rightarrow> if i < length xs then Inl (Some (xs ! i)) else Inr ArrayPrototype)"
| "chainLookup (JObj m) key =
     (case fmlookup m key of None \<Rightarrow> Inr ObjectPrototype | Some v \<Rightarrow> Inl (Some v))"
| "chainLookup (JObjP p m) key =
     (case fmlookup m key of
        None \<Rightarrow> if p = JNull then Inl None else chainLookup p key
      | Some v \<Rightarrow> Inl (Some v))"
| "chainLookup (JFunction f) key = Inr (Function f)"

text \<open>
  The property read \<^verbatim>\<open>data[key]\<close>. On \<^verbatim>\<open>undefined\<close> and \<^verbatim>\<open>null\<close> it raises a
  \<^verbatim>\<open>TypeError\<close>; where nothing is found it gives \<^verbatim>\<open>undefined\<close>.
\<close>

definition getProp :: "runtime \<Rightarrow> jsval \<Rightarrow> string \<Rightarrow> exn + jsval" where
  "getProp rt data key =
     (if data = JUndefined \<or> data = JNull then Inl TypeError
      else case chainLookup data key of
             Inl None \<Rightarrow> Inr JUndefined
           | Inl (Some v) \<Rightarrow> Inr v
           | Inr b \<Rightarrow>
               (case rt b key of
                  None \<Rightarrow> Inr JUndefined
                | Some v \<Rightarrow>
                    (case data of
                       JObjP p m \<Rightarrow> if key = ''__proto__'' then Inr p else Inr v
                     | _ \<Rightarrow> Inr v)))"

subsection \<open>Writing a property\<close>

text \<open>
  The assignment \<^verbatim>\<open>res[key] = v\<close> to an object that the library has created with
  \<^verbatim>\<open>{}\<close>. For the key \<^verbatim>\<open>__proto__\<close> it runs the setter of \<^verbatim>\<open>Object.prototype\<close>, which
  makes an object, a function or \<^verbatim>\<open>null\<close> (the values of type \<^verbatim>\<open>'object'\<close> or
  \<^verbatim>\<open>'function'\<close>) the prototype of \<open>res\<close>, does nothing for any other value, and stores no
  own property; an object without prototype has no such
  setter. For every other key it stores an own property (the members that the objects of
  the model inherit are taken to be writable).
\<close>

fun assign :: "jsval \<Rightarrow> string \<Rightarrow> jsval \<Rightarrow> jsval" where
  "assign (JObj m) key v =
     (if key = ''__proto__''
      then (if typeof v = ''object'' \<or> typeof v = ''function'' then JObjP v m else JObj m)
      else JObj (fmupd key v m))"
| "assign (JObjP p m) key v =
     (if key = ''__proto__'' \<and> p \<noteq> JNull
      then (if typeof v = ''object'' \<or> typeof v = ''function'' then JObjP v m else JObjP p m)
      else JObjP p (fmupd key v m))"
| "assign res key v = res"

subsection \<open>Enumerating the properties\<close>

text \<open>
  An object that a program writes down or builds by assignments is given by the list of
  its own entries in the order in which they were created. \<^verbatim>\<open>for (const key in obj)\<close>
  visits the keys that are array indices first, in ascending numeric order, and then the
  other keys in the order of creation.
\<close>

definition forIn :: "(string \<times> 'a) list \<Rightarrow> (string \<times> 'a) list" where
  "forIn entries =
     sort_key (\<lambda>(key, v). the (arrayIndex key)) (filter (\<lambda>(key, v). arrayIndex key \<noteq> None) entries)
     @ filter (\<lambda>(key, v). arrayIndex key = None) entries"

section \<open>Results and codecs\<close>

text \<open>
  \<^verbatim>\<open>Result<A>\<close> is \<^verbatim>\<open>{ ok: false; error: string } | { ok: true; value: A }\<close>.
\<close>

datatype 'a result = Failure string | Success 'a

text \<open>
  A callback handed to the library is a JavaScript function, so it may raise instead of
  returning: a computation gives \<open>Inl\<close> of the exception or \<open>Inr\<close> of its value. A
  callback that is never called cannot make the caller raise.
\<close>

fun mapResult :: "'a result \<Rightarrow> ('a \<Rightarrow> exn + 'b) \<Rightarrow> exn + 'b result" where
  "mapResult (Success a) f = (case f a of Inl e \<Rightarrow> Inl e | Inr b \<Rightarrow> Inr (Success b))"
| "mapResult (Failure m) f = Inr (Failure m)"

record ('x, 'a) SerDe =
  encode :: "'x \<Rightarrow> exn + jsval"
  decode :: "jsval \<Rightarrow> exn + 'a result"

datatype ('a, 'x) Codec = Codec (serde: "('x, 'a) SerDe")

definition toObject :: "('a, 'x) Codec \<Rightarrow> 'x \<Rightarrow> exn + jsval" where
  "toObject c entity = encode (serde c) entity"

definition fromObject :: "('a, 'x) Codec \<Rightarrow> jsval \<Rightarrow> exn + 'a result" where
  "fromObject c data = decode (serde c) data"

text \<open>
  \<^verbatim>\<open>fromJSON\<close> calls \<^verbatim>\<open>JSON.parse\<close>, which is not part of the library: it is the
  parameter \<open>parse\<close>, a function from the text to the tree that may raise. The argument
  of the call to \<^verbatim>\<open>decode\<close> is evaluated first, and nothing catches what it raises.
\<close>

definition fromJSON :: "(string \<Rightarrow> exn + jsval) \<Rightarrow> ('a, 'x) Codec \<Rightarrow> string \<Rightarrow> exn + 'a result" where
  "fromJSON parse c json =
     (case parse json of Inl e \<Rightarrow> Inl e | Inr data \<Rightarrow> decode (serde c) data)"

definition sel :: "('a, 'x) Codec \<Rightarrow> ('y \<Rightarrow> exn + 'x) \<Rightarrow> ('a, 'y) Codec" where
  "sel c extract =
     Codec \<lparr> encode = (\<lambda>y. case extract y of Inl e \<Rightarrow> Inl e | Inr x \<Rightarrow> encode (serde c) x),
             decode = decode (serde c) \<rparr>"


definition map_codec :: "('a, 'x) Codec \<Rightarrow> ('a \<Rightarrow> exn + 'b) \<Rightarrow> ('b, 'x) Codec" where
  "map_codec c f =
     Codec \<lparr> encode = encode (serde c),
             decode = (\<lambda>data.
               case decode (serde c) data of
                 Inl e \<Rightarrow> Inl e
               | Inr res \<Rightarrow> mapResult res f) \<rparr>"

section \<open>Primitive codecs\<close>

definition string :: "(jsval, jsval) Codec" where
  "string =
     Codec \<lparr> encode = (\<lambda>s. Inr s),
             decode = (\<lambda>data. if typeof data = ''string'' then Inr (Success data)
                               else Inr (Failure ''expected string'')) \<rparr>"

definition number :: "(jsval, jsval) Codec" where
  "number =
     Codec \<lparr> encode = (\<lambda>s. Inr s),
             decode = (\<lambda>data. if typeof data = ''number'' then Inr (Success data)
                               else Inr (Failure ''expected number '')) \<rparr>"

definition boolean :: "(jsval, jsval) Codec" where
  "boolean =
     Codec \<lparr> encode = (\<lambda>s. Inr s),
             decode = (\<lambda>data. if typeof data = ''boolean'' then Inr (Success data)
                               else Inr (Failure ''expected boolean'')) \<rparr>"

section \<open>Arrays\<close>

text \<open>
  The loop of \<^verbatim>\<open>decodeArray\<close>: \<open>value\<close> is the array built so far, and the first item
  that does not decode ends the loop.
\<close>

fun decodeArray_loop :: "(jsval, 'x) Codec \<Rightarrow> jsval list \<Rightarrow> jsval list \<Rightarrow> exn + jsval result" where
  "decodeArray_loop codec [] val = Inr (Success (JArr val))"
| "decodeArray_loop codec (x # xs) val =
     (case decode (serde codec) x of
        Inl e \<Rightarrow> Inl e
      | Inr decoded \<Rightarrow>
          (case decoded of
             Failure m \<Rightarrow> Inr decoded
           | Success a \<Rightarrow> decodeArray_loop codec xs (val @ [a])))"

fun decodeArray :: "jsval \<Rightarrow> (jsval, 'x) Codec \<Rightarrow> exn + jsval result" where
  "decodeArray (JArr xs) codec = decodeArray_loop codec xs []"
| "decodeArray data codec = Inr (Failure ''expected array'')"

text \<open>
  \<^verbatim>\<open>xs.map(x => codec.serde.encode(x))\<close>: the items are encoded from left to right. On a
  value that is not an array there is no method \<^verbatim>\<open>map\<close> to call, and the call raises
  (a value that holds or inherits a function under the key \<^verbatim>\<open>map\<close> without being an
  array is outside the model).
\<close>

fun encodeArray_loop :: "('a, jsval) Codec \<Rightarrow> jsval list \<Rightarrow> exn + jsval list" where
  "encodeArray_loop codec [] = Inr []"
| "encodeArray_loop codec (x # xs) =
     (case encode (serde codec) x of
        Inl e \<Rightarrow> Inl e
      | Inr y \<Rightarrow> (case encodeArray_loop codec xs of Inl e \<Rightarrow> Inl e | Inr ys \<Rightarrow> Inr (y # ys)))"

fun encodeArray :: "('a, jsval) Codec \<Rightarrow> jsval \<Rightarrow> exn + jsval" where
  "encodeArray codec (JArr xs) =
     (case encodeArray_loop codec xs of Inl e \<Rightarrow> Inl e | Inr ys \<Rightarrow> Inr (JArr ys))"
| "encodeArray codec v = Inl TypeError"

definition array :: "(jsval, jsval) Codec \<Rightarrow> (jsval, jsval) Codec" where
  "array codec =
     Codec \<lparr> encode = (\<lambda>xs. encodeArray codec xs),
             decode = (\<lambda>data. decodeArray data codec) \<rparr>"

section \<open>Records\<close>

text \<open>
  The field specification \<^verbatim>\<open>codecs\<close> is an object whose values are codecs: the list of
  its own entries in the order of declaration. \<^verbatim>\<open>for (const key in codecs)\<close> visits them
  as \<open>forIn\<close> says; the keys of an object are distinct, so \<^verbatim>\<open>codecs[key]\<close> is the codec of
  the entry visited. The loops start from \<^verbatim>\<open>{}\<close> and assign one field after the other.
\<close>

fun encodeRecord_loop ::
  "'x \<Rightarrow> (string \<times> ('a, 'x) Codec) list \<Rightarrow> jsval \<Rightarrow> exn + jsval" where
  "encodeRecord_loop x [] res = Inr res"
| "encodeRecord_loop x ((key, c) # codecs) res =
     (case encode (serde c) x of
        Inl e \<Rightarrow> Inl e
      | Inr v \<Rightarrow> encodeRecord_loop x codecs (assign res key v))"

definition encodeRecord :: "'x \<Rightarrow> (string \<times> ('a, 'x) Codec) list \<Rightarrow> exn + jsval" where
  "encodeRecord x codecs = encodeRecord_loop x (forIn codecs) (JObj fmempty)"

fun decodeRecord_loop ::
  "runtime \<Rightarrow> jsval \<Rightarrow> (string \<times> (jsval, 'x) Codec) list \<Rightarrow> jsval \<Rightarrow> exn + jsval result" where
  "decodeRecord_loop rt data [] res = Inr (Success res)"
| "decodeRecord_loop rt data ((key, c) # codecs) res =
     (case getProp rt data key of
        Inl e \<Rightarrow> Inl e
      | Inr val \<Rightarrow>
          if \<not> truthy val then Inr (Failure (''missing field '' @ key))
          else (case decode (serde c) val of
                  Inl e \<Rightarrow> Inl e
                | Inr decoded \<Rightarrow>
                    (case decoded of
                       Failure m \<Rightarrow> Inr decoded
                     | Success a \<Rightarrow> decodeRecord_loop rt data codecs (assign res key a))))"

definition decodeRecord ::
  "runtime \<Rightarrow> jsval \<Rightarrow> (string \<times> (jsval, 'x) Codec) list \<Rightarrow> exn + jsval result" where
  "decodeRecord rt data codecs =
     (if typeof data \<noteq> ''object'' then Inr (Failure ''expected object'')
      else decodeRecord_loop rt data (forIn codecs) (JObj fmempty))"

definition sameRecord :: "runtime \<Rightarrow> (string \<times> (jsval, 'x) Codec) list \<Rightarrow> (jsval, 'x) Codec" where
  "sameRecord rt codecs =
     Codec \<lparr> encode = (\<lambda>x. encodeRecord x codecs),
             decode = (\<lambda>data. decodeRecord rt data codecs) \<rparr>"

text \<open>
  The object \<^verbatim>\<open>enlarged\<close> that \<^verbatim>\<open>record\<close> builds by the assignments
  \<^verbatim>\<open>enlarged[key] = codecs[key].sel(r => r[key])\<close>. A field named \<^verbatim>\<open>__proto__\<close> is not
  stored: the assignment makes its codec, an instance of the class \<^verbatim>\<open>Codec\<close>, the
  prototype of \<^verbatim>\<open>enlarged\<close>. The loops over \<^verbatim>\<open>enlarged\<close> then visit, after the own keys,
  the enumerable property \<^verbatim>\<open>repr\<close> that \<^verbatim>\<open>enlarged\<close> inherits from that instance, unless
  a field of this name is declared; \<^verbatim>\<open>enlarged['repr']\<close> is not a codec, and reading
  \<^verbatim>\<open>.serde.encode\<close> or \<^verbatim>\<open>.serde.decode\<close> of it raises a \<^verbatim>\<open>TypeError\<close>. (A field
  named \<^verbatim>\<open>__proto__\<close> together with a field named as another member of the class, such as
  \<^verbatim>\<open>serde\<close>, is outside the model: there the assignments themselves can fail.)
\<close>

definition enlarge ::
  "runtime \<Rightarrow> (string \<times> (jsval, jsval) Codec) list \<Rightarrow> (string \<times> (jsval, jsval) Codec) list" where
  "enlarge rt codecs =
     (let own = map (\<lambda>(key, c). (key, sel c (\<lambda>r. getProp rt r key)))
                  (filter (\<lambda>(key, c). key \<noteq> ''__proto__'') (forIn codecs))
      in if ''__proto__'' \<in> set (map fst codecs) \<and> ''repr'' \<notin> set (map fst codecs)
         then own @ [(''repr'', Codec \<lparr> encode = (\<lambda>x. Inl TypeError), decode = (\<lambda>data. Inl TypeError) \<rparr>)]
         else own)"

definition record_codec :: "runtime \<Rightarrow> (string \<times> (jsval, jsval) Codec) list \<Rightarrow> (jsval, jsval) Codec" where
  "record_codec rt codecs =
     (let enlarged = enlarge rt codecs
      in Codec \<lparr> encode = (\<lambda>x. encodeRecord x enlarged),
                 decode = (\<lambda>data. decodeRecord rt data enlarged) \<rparr>)"

definition mapRecord ::
  "runtime \<Rightarrow> (string \<times> (jsval, 'x) Codec) list \<Rightarrow> (jsval \<Rightarrow> exn + 'b) \<Rightarrow> ('b, 'x) Codec" where
  "mapRecord rt codecs f = map_codec (sameRecord rt codecs) f"

section \<open>Field names, a runtime for the examples, and the codecs that the combinators build\<close>


text \<open>
  A runtime for the examples: a read that goes on in \<^verbatim>\<open>Object.prototype\<close> finds the members
  that the language gives this object. The examples read inherited members of plain
  objects only, and of an array the member \<^verbatim>\<open>name\<close>, which it does not have; what else the
  other objects of the runtime hold is left out.
\<close>

definition exampleRuntime :: runtime where
  "exampleRuntime b key =
     (if b \<noteq> ObjectPrototype then None
      else if key = ''constructor'' then Some (JFunction ''Object'')
      else if key = ''__proto__'' then Some (JObjP JNull fmempty)
      else if key \<in> set [''hasOwnProperty'', ''isPrototypeOf'', ''propertyIsEnumerable'',
                ''toLocaleString'', ''toString'', ''valueOf'', ''__defineGetter__'',
                ''__defineSetter__'', ''__lookupGetter__'', ''__lookupSetter__'']
      then Some (JFunction (''Object.prototype.'' @ key))
      else None)"

text \<open>
  How a codec is built from the combinators: from \<^verbatim>\<open>string\<close>, \<^verbatim>\<open>number\<close>, \<^verbatim>\<open>boolean\<close>,
  \<^verbatim>\<open>array(c)\<close>, \<^verbatim>\<open>record({key: c, ...})\<close>, \<^verbatim>\<open>c.map(f).sel(extract)\<close> and
  \<^verbatim>\<open>mapRecord({key: c.sel(extract), ...}, f)\<close>; and the codec that is built.
\<close>

datatype recipe =
    RString
  | RNumber
  | RBoolean
  | RArray recipe
  | RRecord "(string \<times> recipe) list"
  | RMapSel recipe "jsval \<Rightarrow> exn + jsval" "jsval \<Rightarrow> exn + jsval"
  | RMapRecord "(string \<times> recipe \<times> (jsval \<Rightarrow> exn + jsval)) list" "jsval \<Rightarrow> exn + jsval"

fun codec_of :: "runtime \<Rightarrow> recipe \<Rightarrow> (jsval, jsval) Codec" where
  "codec_of rt RString = string"
| "codec_of rt RNumber = number"
| "codec_of rt RBoolean = boolean"
| "codec_of rt (RArray r) = array (codec_of rt r)"
| "codec_of rt (RRecord spec) = record_codec rt (map (\<lambda>(key, r). (key, codec_of rt r)) spec)"
| "codec_of rt (RMapSel r f extract) = sel (map_codec (codec_of rt r) f) extract"
| "codec_of rt (RMapRecord spec f) =
     mapRecord rt (map (\<lambda>(key, r, extract). (key, sel (codec_of rt r) extract)) spec) f"

text \<open>
  The values that a round trip is stated for. For a record: an object with the declared
  fields and no others, none of them named \<^verbatim>\<open>__proto__\<close>, each bound to a value of the
  field's codec whose encoding is truthy. For \<^verbatim>\<open>c.map(f).sel(extract)\<close>: a value whose
  extract \<open>f\<close> maps back to the value. For \<^verbatim>\<open>mapRecord\<close>: a value whose extracts are values
  of the fields' codecs with truthy encodings, and which \<open>f\<close> gives back from the record of
  the extracts.
\<close>

fun encode_domain :: "runtime \<Rightarrow> recipe \<Rightarrow> jsval \<Rightarrow> bool" where
  "encode_domain rt RString v = (typeof v = ''string'')"
| "encode_domain rt RNumber v = (typeof v = ''number'')"
| "encode_domain rt RBoolean v = (typeof v = ''boolean'')"
| "encode_domain rt (RArray r) v =
     (case v of JArr xs \<Rightarrow> list_all (encode_domain rt r) xs | _ \<Rightarrow> False)"
| "encode_domain rt (RRecord spec) v =
     (case v of
        JObj m \<Rightarrow>
          distinct (map fst spec) \<and>
          fmdom m = fset_of_list (map fst spec) \<and>
          list_all (\<lambda>(key, r).
              key \<noteq> ''__proto__'' \<and>
              (case fmlookup m key of
                 None \<Rightarrow> False
               | Some x \<Rightarrow>
                   encode_domain rt r x \<and>
                   (case toObject (codec_of rt r) x of Inl e \<Rightarrow> False | Inr tree \<Rightarrow> truthy tree))) spec
      | _ \<Rightarrow> False)"
| "encode_domain rt (RMapSel r f extract) v =
     (case extract v of Inl e \<Rightarrow> False | Inr x \<Rightarrow> encode_domain rt r x \<and> f x = Inr v)"
| "encode_domain rt (RMapRecord spec f) v =
     (distinct (map fst spec) \<and>
      list_all (\<lambda>(key, r, extract).
          key \<noteq> ''__proto__'' \<and>
          (case extract v of
             Inl e \<Rightarrow> False
           | Inr x \<Rightarrow>
               encode_domain rt r x \<and>
               (case toObject (codec_of rt r) x of Inl e \<Rightarrow> False | Inr tree \<Rightarrow> truthy tree))) spec \<and>
      f (JObj (fmap_of_list
           (map (\<lambda>(key, r, extract). (key, case extract v of Inl e \<Rightarrow> JUndefined | Inr x \<Rightarrow> x)) spec)))
        = Inr v)"

section \<open>Properties of the primitive codecs\<close>

text \<open>
  C9. For the codecs \<^verbatim>\<open>string\<close>, \<^verbatim>\<open>number\<close> and \<^verbatim>\<open>boolean\<close>: encoding returns the value
  it is given; decoding a node of the codec's runtime kind succeeds with that node,
  unchanged; decoding a node of any other runtime kind fails with the message that names
  the expected kind, and no value is coerced. Decoding \<^verbatim>\<open>true\<close> as a number and
  \<^verbatim>\<open>"1"\<close> as a boolean fail so.
\<close>

theorem primitive_codecs:
  "toObject string v = Inr v \<and> toObject number v = Inr v \<and> toObject boolean v = Inr v
   \<and> fromObject string d =
       (if typeof d = ''string'' then Inr (Success d) else Inr (Failure ''expected string''))
   \<and> fromObject number d =
       (if typeof d = ''number'' then Inr (Success d) else Inr (Failure ''expected number ''))
   \<and> fromObject boolean d =
       (if typeof d = ''boolean'' then Inr (Success d) else Inr (Failure ''expected boolean''))
   \<and> fromObject number (JBool True) = Inr (Failure ''expected number '')
   \<and> fromObject boolean (JStr ''1'') = Inr (Failure ''expected boolean'')"
  by (simp add: toObject_def fromObject_def string_def number_def boolean_def)

section \<open>Properties of map and filter\<close>





section \<open>Properties of the array codec\<close>

text \<open>The items of a prefix that all decode are appended, in order, to the array built so far.\<close>

lemma decodeArray_loop_prefix:
  "list_all2 (\<lambda>x a. decode (serde c) x = Inr (Success a)) xs ys \<Longrightarrow>
   decodeArray_loop c (xs @ rest) acc = decodeArray_loop c rest (acc @ ys)"
  by (induction xs ys arbitrary: acc rule: list_all2_induct) simp_all

text \<open>
  C6. For every element codec \<open>c\<close>, the decode of \<^verbatim>\<open>array(c)\<close> fails with
  \<^verbatim>\<open>"expected array"\<close> on every node that is not an array. On an array whose items \<open>xs\<close>
  decode and whose next item \<open>y\<close> fails, it returns the failure of \<open>y\<close> unchanged,
  whatever the later items \<open>zs\<close> are and whatever \<open>c\<close> does on them (they are not
  decoded). On an array whose items all decode, it succeeds with the decoded items in the
  order of the input. Decoding \<^verbatim>\<open>[1, "x", 3]\<close> with \<^verbatim>\<open>array(number)\<close> fails with the
  failure of the second item.
\<close>

theorem array_decode:
  "(\<not> isArray d \<longrightarrow> fromObject (array c) d = Inr (Failure ''expected array''))
   \<and> (list_all2 (\<lambda>x a. fromObject c x = Inr (Success a)) xs ys \<and> fromObject c y = Inr (Failure m)
        \<longrightarrow> fromObject (array c) (JArr (xs @ y # zs)) = Inr (Failure m))
   \<and> (list_all2 (\<lambda>x a. fromObject c x = Inr (Success a)) xs ys
        \<longrightarrow> fromObject (array c) (JArr xs) = Inr (Success (JArr ys)))
   \<and> fromObject (array number) (JArr [JNum (Fin 1), JStr ''x'', JNum (Fin 3)])
        = Inr (Failure ''expected number '')"
proof -
  have not_array: "\<not> isArray d \<Longrightarrow> decodeArray d c = Inr (Failure ''expected array'')"
    by (cases d) simp_all
  have fail_fast: "decodeArray_loop c (xs @ y # zs) [] = Inr (Failure m)"
    if "list_all2 (\<lambda>x a. decode (serde c) x = Inr (Success a)) xs ys"
      and "decode (serde c) y = Inr (Failure m)"
    using decodeArray_loop_prefix [OF that(1), of "y # zs" "[]"] that(2) by simp
  have all_ok: "decodeArray_loop c xs [] = Inr (Success (JArr ys))"
    if "list_all2 (\<lambda>x a. decode (serde c) x = Inr (Success a)) xs ys"
    using decodeArray_loop_prefix [OF that, of "[]" "[]"] by simp
  show ?thesis
    using not_array fail_fast all_ok
    by (simp add: fromObject_def array_def number_def)
qed

text \<open>
  In the witness the element codec of the second part raises on the number 3, the item
  after the failing one: the decode returns the failure all the same.
\<close>

theorem array_decode_witness:
  "\<not> isArray (JStr ''x'')
   \<and> fromObject (array number) (JStr ''x'') = Inr (Failure ''expected array'')
   \<and> list_all2 (\<lambda>x a. fromObject
          (Codec \<lparr> encode = Inr,
                    decode = (\<lambda>d. if d = JNum (Fin 3) then Inl TypeError else decode (serde number) d) \<rparr>)
          x = Inr (Success a)) [JNum (Fin 1)] [JNum (Fin 1)]
   \<and> fromObject (array
          (Codec \<lparr> encode = Inr,
                    decode = (\<lambda>d. if d = JNum (Fin 3) then Inl TypeError else decode (serde number) d) \<rparr>))
        (JArr ([JNum (Fin 1)] @ JStr ''x'' # [JNum (Fin 3)])) = Inr (Failure ''expected number '')
   \<and> list_all2 (\<lambda>x a. fromObject number x = Inr (Success a))
        [JNum (Fin 1), JNum (Fin 2), JNum (Fin 3)] [JNum (Fin 1), JNum (Fin 2), JNum (Fin 3)]
   \<and> fromObject (array number) (JArr [JNum (Fin 1), JNum (Fin 2), JNum (Fin 3)])
       = Inr (Success (JArr [JNum (Fin 1), JNum (Fin 2), JNum (Fin 3)]))"
  using array_decode [of "JStr ''x''" number]
    array_decode [of _ "Codec \<lparr> encode = Inr,
        decode = (\<lambda>d. if d = JNum (Fin 3) then Inl TypeError else decode (serde number) d) \<rparr>"
      "[JNum (Fin 1)]" "[JNum (Fin 1)]" "JStr ''x''" "''expected number ''" "[JNum (Fin 3)]"]
    array_decode [of _ number "[JNum (Fin 1), JNum (Fin 2), JNum (Fin 3)]"
      "[JNum (Fin 1), JNum (Fin 2), JNum (Fin 3)]"]
  by (simp add: fromObject_def number_def)

section \<open>Properties of the record codec\<close>

text \<open>
  \<^verbatim>\<open>for ... in\<close> visits every entry; it visits fields with plain names in the order of
  declaration, and it visits the entries of \<^verbatim>\<open>enlarged\<close> as it visits the declared fields.
  \<^verbatim>\<open>sel\<close> leaves the decode side as it is, so for plain field names \<^verbatim>\<open>record(codecs)\<close>
  decodes as the loop of \<^verbatim>\<open>decodeRecord\<close> does with the field codecs themselves.
\<close>

lemma set_forIn [simp]: "set (forIn cs) = set cs"
  by (auto simp: forIn_def)



lemma enlarge_plain:
  "''__proto__'' \<notin> set (map fst cs) \<Longrightarrow>
   enlarge rt cs = map (\<lambda>(key, c). (key, sel c (\<lambda>r. getProp rt r key))) (forIn cs)"
proof -
  assume a: "''__proto__'' \<notin> set (map fst cs)"
  then have "filter (\<lambda>(key, c). key \<noteq> ''__proto__'') (forIn cs) = forIn cs"
    by (intro filter_True) (auto simp: rev_image_eqI)
  with a show ?thesis by (simp add: enlarge_def)
qed




lemma decode_sel [simp]: "decode (serde (sel c extract)) = decode (serde c)"
  by (simp add: sel_def)


lemma fromObject_record_codec:
  "fromObject (record_codec rt cs) data = decodeRecord rt data (enlarge rt cs)"
  by (simp add: fromObject_def record_codec_def Let_def)
















text \<open>
  \<^verbatim>\<open>enlarged\<close> has an entry to visit whenever a field is declared, and the first read on
  \<^verbatim>\<open>null\<close> raises.
\<close>

lemma enlarge_nonempty: "enlarge rt (kc # cs) \<noteq> []"
proof (cases "\<exists>x \<in> set (kc # cs). fst x \<noteq> ''__proto__''")
  case True
  then obtain k c where kc: "(k, c) \<in> set (kc # cs)" "k \<noteq> ''__proto__''" by force
  from kc(1) have "(k, c) \<in> set (forIn (kc # cs))" by (simp only: set_forIn)
  with kc(2) have "(k, c) \<in> set (filter (\<lambda>(key, c). key \<noteq> ''__proto__'') (forIn (kc # cs)))"
    by simp
  then have "filter (\<lambda>(key, c). key \<noteq> ''__proto__'') (forIn (kc # cs)) \<noteq> []"
    by (metis empty_iff list.set(1))
  then show ?thesis by (simp add: enlarge_def Let_def)
next
  case False
  then have "''__proto__'' \<in> set (map fst (kc # cs))" "''repr'' \<notin> set (map fst (kc # cs))"
    by auto
  then show ?thesis by (simp add: enlarge_def Let_def del: set_map list.map)
qed

lemma decodeRecord_null:
  "cs \<noteq> [] \<Longrightarrow> decodeRecord rt JNull cs = Inl TypeError"
proof -
  assume "cs \<noteq> []"
  then have "forIn cs \<noteq> []" by (metis set_forIn set_empty)
  then obtain k c rest where "forIn cs = (k, c) # rest" by (cases "forIn cs") auto
  then show ?thesis by (simp add: decodeRecord_def getProp_def)
qed

text \<open>
  C4. Decoding with a record codec fails with \<^verbatim>\<open>"expected object"\<close> on every string,
  number, boolean and on \<^verbatim>\<open>undefined\<close>. The test is \<^verbatim>\<open>typeof data !== 'object'\<close>, which
  \<^verbatim>\<open>null\<close> and arrays pass: on \<^verbatim>\<open>null\<close> the read of the first field visited raises a
  \<^verbatim>\<open>TypeError\<close> (and with no declared field the decode succeeds with \<^verbatim>\<open>{}\<close>); an array is
  decoded as an object is, so that it fails with \<^verbatim>\<open>"missing field name"\<close> for a field that
  it does not have (\<^verbatim>\<open>Array.prototype\<close> has no member \<^verbatim>\<open>name\<close>) and succeeds for the
  field \<^verbatim>\<open>length\<close>.
\<close>

theorem record_expected_object:
  "fromObject (record_codec rt cs) (JStr s) = Inr (Failure ''expected object'')
   \<and> fromObject (record_codec rt cs) (JNum n) = Inr (Failure ''expected object'')
   \<and> fromObject (record_codec rt cs) (JBool b) = Inr (Failure ''expected object'')
   \<and> fromObject (record_codec rt cs) JUndefined = Inr (Failure ''expected object'')
   \<and> fromObject (record_codec rt ((k, c) # cs)) JNull = Inl TypeError
   \<and> fromObject (record_codec rt []) JNull = Inr (Success (JObj fmempty))
   \<and> (rt ArrayPrototype ''name'' = None \<longrightarrow>
        fromObject (record_codec rt [(''name'', string)]) (JArr [JStr ''John''])
          = Inr (Failure ''missing field name''))
   \<and> fromObject (record_codec rt [(''length'', number)]) (JArr [JStr ''John''])
       = Inr (Success (JObj (fmupd ''length'' (JNum (Fin 1)) fmempty)))"
proof -
  have null: "decodeRecord rt JNull (enlarge rt ((k, c) # cs)) = Inl TypeError"
    by (rule decodeRecord_null) (rule enlarge_nonempty)
  have rest: "decodeRecord rt (JStr s) (enlarge rt cs) = Inr (Failure ''expected object'')"
    "decodeRecord rt (JNum n) (enlarge rt cs) = Inr (Failure ''expected object'')"
    "decodeRecord rt (JBool b) (enlarge rt cs) = Inr (Failure ''expected object'')"
    "decodeRecord rt JUndefined (enlarge rt cs) = Inr (Failure ''expected object'')"
    "decodeRecord rt JNull (enlarge rt []) = Inr (Success (JObj fmempty))"
    by (simp_all add: decodeRecord_def enlarge_def forIn_def)
  have arr: "rt ArrayPrototype ''name'' = None \<Longrightarrow>
      decodeRecord rt (JArr [JStr ''John'']) (enlarge rt [(''name'', string)]) = Inr (Failure ''missing field name'')"
    "decodeRecord rt (JArr [JStr ''John'']) (enlarge rt [(''length'', number)])
      = Inr (Success (JObj (fmupd ''length'' (JNum (Fin 1)) fmempty)))"
    by (simp_all add: decodeRecord_def enlarge_def forIn_def arrayIndex_def digit_def getProp_def
        string_def number_def)
  show ?thesis
    using null rest arr by (simp add: fromObject_record_codec)
qed

theorem record_expected_object_witness:
  "exampleRuntime ArrayPrototype ''name'' = None
   \<and> fromObject (record_codec exampleRuntime [(''name'', string)]) (JArr [JStr ''John''])
       = Inr (Failure ''missing field name'')
   \<and> fromObject (record_codec exampleRuntime [(''name'', string)]) JNull = Inl TypeError"
  using record_expected_object [of exampleRuntime "[]" _ _ _ "''name''" string]
  by (simp add: exampleRuntime_def)

text \<open>
  Where no field is named \<^verbatim>\<open>__proto__\<close>, both loops store one entry for each key they
  visit and no other. The loops read the value they are given at the keys they visit only.
\<close>

lemma encodeRecord_loop_keys:
  "''__proto__'' \<notin> fst ` set cs \<Longrightarrow> encodeRecord_loop x cs (JObj res) = Inr r \<Longrightarrow>
   \<exists>res'. r = JObj res' \<and> fmdom res' = fmdom res |\<union>| fset_of_list (map fst cs)"
proof (induction cs arbitrary: res)
  case Nil
  then show ?case by auto
next
  case (Cons kc cs)
  obtain k c where kc: "kc = (k, c)" by (cases kc)
  with Cons.prems(1) have k: "k \<noteq> ''__proto__''" and rest: "''__proto__'' \<notin> fst ` set cs"
    by auto
  from Cons.prems(2) kc k obtain v where "encodeRecord_loop x cs (JObj (fmupd k v res)) = Inr r"
    by (auto split: sum.splits)
  from Cons.IH [OF rest this] kc show ?case by auto
qed

lemma decodeRecord_loop_keys:
  "''__proto__'' \<notin> fst ` set cs \<Longrightarrow> decodeRecord_loop rt data cs (JObj res) = Inr (Success r) \<Longrightarrow>
   \<exists>res'. r = JObj res' \<and> fmdom res' = fmdom res |\<union>| fset_of_list (map fst cs)"
proof (induction cs arbitrary: res)
  case Nil
  then show ?case by auto
next
  case (Cons kc cs)
  obtain k c where kc: "kc = (k, c)" by (cases kc)
  with Cons.prems(1) have k: "k \<noteq> ''__proto__''" and rest: "''__proto__'' \<notin> fst ` set cs"
    by auto
  from Cons.prems(2) kc k obtain a where "decodeRecord_loop rt data cs (JObj (fmupd k a res)) = Inr (Success r)"
    by (auto split: sum.splits result.splits if_splits)
  from Cons.IH [OF rest this] kc show ?case by auto
qed

lemma getProp_agree:
  "fmlookup m k = fmlookup m' k \<Longrightarrow> getProp rt (JObj m) k = getProp rt (JObj m') k"
  by (simp add: getProp_def split: option.splits)

lemma encodeRecord_loop_cong:
  "(\<And>k c. (k, c) \<in> set cs \<Longrightarrow> encode (serde c) x = encode (serde c) x') \<Longrightarrow>
   encodeRecord_loop x cs res = encodeRecord_loop x' cs res"
proof (induction cs arbitrary: res)
  case Nil
  then show ?case by simp
next
  case (Cons kc cs)
  obtain k c where kc: "kc = (k, c)" by (cases kc)
  have "encode (serde c) x = encode (serde c) x'" using Cons.prems [of k c] kc by simp
  moreover have "encodeRecord_loop x cs res' = encodeRecord_loop x' cs res'" for res'
    using Cons.prems by (intro Cons.IH) auto
  ultimately show ?case using kc by (simp split: sum.splits)
qed

lemma decodeRecord_loop_declared:
  "(\<And>k c. (k, c) \<in> set cs \<Longrightarrow> fmlookup m k = fmlookup m' k) \<Longrightarrow>
   decodeRecord_loop rt (JObj m) cs res = decodeRecord_loop rt (JObj m') cs res"
proof (induction cs arbitrary: res)
  case Nil
  then show ?case by simp
next
  case (Cons kc cs)
  obtain k c where kc: "kc = (k, c)" by (cases kc)
  have "getProp rt (JObj m) k = getProp rt (JObj m') k"
    using Cons.prems [of k c] kc by (intro getProp_agree) simp
  moreover have "decodeRecord_loop rt (JObj m) cs res' = decodeRecord_loop rt (JObj m') cs res'" for res'
    using Cons.prems by (intro Cons.IH) auto
  ultimately show ?case using kc by (simp split: sum.splits result.splits)
qed

lemma enlarge_encode_agree:
  assumes "list_all (\<lambda>k. fmlookup m k = fmlookup m' k) (map fst cs)"
    and "(k, c) \<in> set (enlarge rt cs)"
  shows "encode (serde c) (JObj m) = encode (serde c) (JObj m')"
proof -
  from assms(2) consider
    (own) c0 where "(k, c0) \<in> set cs" "c = sel c0 (\<lambda>r. getProp rt r k)"
    | (inherited) "c = Codec \<lparr> encode = (\<lambda>x. Inl TypeError), decode = (\<lambda>data. Inl TypeError) \<rparr>"
    by (auto simp: enlarge_def Let_def split: if_splits)
  then show ?thesis
  proof cases
    case own
    from assms(1) own(1) have "fmlookup m k = fmlookup m' k"
      by (auto simp: list_all_iff)
    from getProp_agree [OF this] own(2) show ?thesis by (simp add: sel_def)
  next
    case inherited
    then show ?thesis by simp
  qed
qed

lemma enlarge_key_set:
  "''__proto__'' \<notin> set (map fst cs) \<Longrightarrow> fst ` set (enlarge rt cs) = fst ` set cs"
proof -
  assume a: "''__proto__'' \<notin> set (map fst cs)"
  have "map fst (map (\<lambda>(key, c). (key, sel c (\<lambda>r. getProp rt r key))) xs) = map fst xs"
    for xs :: "(string \<times> (jsval, jsval) Codec) list"
    by (induction xs) auto
  then have "map fst (enlarge rt cs) = map fst (forIn cs)"
    by (simp only: enlarge_plain [OF a])
  then have "set (map fst (enlarge rt cs)) = set (map fst (forIn cs))"
    by simp
  then show ?thesis by simp
qed

text \<open>
  C10. The record codec restricts both directions to the declared fields, where no field
  is named \<^verbatim>\<open>__proto__\<close>. The object that encoding returns has the declared keys and no
  others, and encoding returns the same for two input objects that agree on the declared
  keys. The object that a successful decode returns has the declared keys and no others,
  and the result of decoding, success or failure, is the same for two incoming objects
  that agree on the declared keys: entries that are not declared change nothing.
\<close>

theorem record_declared_fields:
  "(''__proto__'' \<notin> set (map fst cs) \<and> toObject (record_codec rt cs) x = Inr r \<longrightarrow>
      (\<exists>res. r = JObj res \<and> fmdom res = fset_of_list (map fst cs)))
   \<and> (list_all (\<lambda>k. fmlookup m k = fmlookup m' k) (map fst cs) \<longrightarrow>
        toObject (record_codec rt cs) (JObj m) = toObject (record_codec rt cs) (JObj m'))
   \<and> (''__proto__'' \<notin> set (map fst cs) \<and> fromObject (record_codec rt cs) d = Inr (Success r) \<longrightarrow>
        (\<exists>res. r = JObj res \<and> fmdom res = fset_of_list (map fst cs)))
   \<and> (''__proto__'' \<notin> set (map fst cs) \<and> list_all (\<lambda>k. fmlookup m k = fmlookup m' k) (map fst cs) \<longrightarrow>
        fromObject (record_codec rt cs) (JObj m) = fromObject (record_codec rt cs) (JObj m'))"
proof -
  have keys: "fset_of_list (map fst (forIn (enlarge rt cs))) = fset_of_list (map fst cs)"
    if "''__proto__'' \<notin> set (map fst cs)"
  proof -
    have "fset (fset_of_list (map fst (forIn (enlarge rt cs)))) = fset (fset_of_list (map fst cs))"
      using enlarge_key_set [OF that, of rt] by (simp add: fset_of_list.rep_eq)
    then show ?thesis by (simp only: fset_inject)
  qed
  have no_proto: "''__proto__'' \<notin> fst ` set (forIn (enlarge rt cs))"
    if "''__proto__'' \<notin> set (map fst cs)"
    using enlarge_key_set [OF that, of rt] that by simp
  have encode_keys: "\<exists>res. r = JObj res \<and> fmdom res = fset_of_list (map fst cs)"
    if "''__proto__'' \<notin> set (map fst cs)" and "encodeRecord x (enlarge rt cs) = Inr r"
    using encodeRecord_loop_keys [OF no_proto [OF that(1)], of x fmempty r] that(2) keys [OF that(1)]
    by (simp add: encodeRecord_def)
  have encode_declared: "encodeRecord (JObj m) (enlarge rt cs) = encodeRecord (JObj m') (enlarge rt cs)"
    if "list_all (\<lambda>k. fmlookup m k = fmlookup m' k) (map fst cs)"
    unfolding encodeRecord_def
    by (rule encodeRecord_loop_cong) (simp add: enlarge_encode_agree [OF that])
  have decode_keys: "\<exists>res. r = JObj res \<and> fmdom res = fset_of_list (map fst cs)"
    if "''__proto__'' \<notin> set (map fst cs)" and "decodeRecord rt d (enlarge rt cs) = Inr (Success r)"
    using decodeRecord_loop_keys [OF no_proto [OF that(1)], of rt d fmempty r] that(2) keys [OF that(1)]
    by (simp add: decodeRecord_def split: if_splits)
  have decode_declared: "decodeRecord rt (JObj m) (enlarge rt cs) = decodeRecord rt (JObj m') (enlarge rt cs)"
    if "''__proto__'' \<notin> set (map fst cs)" and "list_all (\<lambda>k. fmlookup m k = fmlookup m' k) (map fst cs)"
  proof -
    have "fmlookup m k = fmlookup m' k" if "(k, c) \<in> set (forIn (enlarge rt cs))" for k c
    proof -
      from that have "k \<in> fst ` set (enlarge rt cs)" by force
      then have "k \<in> fst ` set cs" using enlarge_key_set [OF \<open>''__proto__'' \<notin> set (map fst cs)\<close>, of rt] by simp
      with \<open>list_all (\<lambda>k. fmlookup m k = fmlookup m' k) (map fst cs)\<close> show ?thesis
        by (auto simp: list_all_iff)
    qed
    from decodeRecord_loop_declared [of "forIn (enlarge rt cs)" m m' rt "JObj fmempty"] this
    show ?thesis by (simp add: decodeRecord_def)
  qed
  have to: "toObject (record_codec rt cs) y = encodeRecord y (enlarge rt cs)" for y
    by (simp add: toObject_def record_codec_def Let_def)
  show ?thesis
    using encode_keys encode_declared decode_keys decode_declared
    by (simp add: to fromObject_record_codec del: set_map)
qed

text \<open>
  With a field named \<^verbatim>\<open>__proto__\<close> the statement fails: for
  \<^verbatim>\<open>record({['__proto__']: string})\<close> the result of decoding depends on the entry
  \<^verbatim>\<open>repr\<close>, which is not declared, and encoding raises a \<^verbatim>\<open>TypeError\<close>.
\<close>

theorem record_declared_fields_counterexample:
  "\<forall>rt.
     fromObject (record_codec rt [(''__proto__'', string)]) (JObj (fmupd ''repr'' (JNum (Fin 1)) fmempty))
       = Inl TypeError
     \<and> fromObject (record_codec rt [(''__proto__'', string)]) (JObj (fmupd ''repr'' (JNum (Fin 0)) fmempty))
       = Inr (Failure ''missing field repr'')
     \<and> toObject (record_codec rt [(''__proto__'', string)]) (JObj fmempty) = Inl TypeError"
  by (simp add: fromObject_def toObject_def record_codec_def decodeRecord_def
      encodeRecord_def enlarge_def forIn_def arrayIndex_def digit_def getProp_def)

theorem record_declared_fields_witness:
  "''__proto__'' \<notin> set (map fst [(''name'', string), (''age'', number)])
   \<and> toObject (record_codec exampleRuntime [(''name'', string), (''age'', number)])
      (JObj (fmupd ''admin'' (JBool True) (fmupd ''age'' (JNum (Fin 18)) (fmupd ''name'' (JStr ''John'') fmempty))))
     = Inr (JObj (fmupd ''age'' (JNum (Fin 18)) (fmupd ''name'' (JStr ''John'') fmempty)))
   \<and> (\<exists>res. JObj (fmupd ''age'' (JNum (Fin 18)) (fmupd ''name'' (JStr ''John'') fmempty)) = JObj res
         \<and> fmdom res = fset_of_list (map fst [(''name'', string), (''age'', number)]))
   \<and> list_all (\<lambda>k. fmlookup (fmupd ''admin'' (JBool True) (fmupd ''age'' (JNum (Fin 18)) (fmupd ''name'' (JStr ''John'') fmempty))) k
         = fmlookup (fmupd ''age'' (JNum (Fin 18)) (fmupd ''name'' (JStr ''John'') fmempty)) k)
        (map fst [(''name'', string), (''age'', number)])
   \<and> toObject (record_codec exampleRuntime [(''name'', string), (''age'', number)])
        (JObj (fmupd ''admin'' (JBool True) (fmupd ''age'' (JNum (Fin 18)) (fmupd ''name'' (JStr ''John'') fmempty))))
     = toObject (record_codec exampleRuntime [(''name'', string), (''age'', number)])
        (JObj (fmupd ''age'' (JNum (Fin 18)) (fmupd ''name'' (JStr ''John'') fmempty)))
   \<and> fromObject (record_codec exampleRuntime [(''name'', string), (''age'', number)])
        (JObj (fmupd ''admin'' (JBool True) (fmupd ''age'' (JNum (Fin 18)) (fmupd ''name'' (JStr ''John'') fmempty))))
     = Inr (Success (JObj (fmupd ''age'' (JNum (Fin 18)) (fmupd ''name'' (JStr ''John'') fmempty))))
   \<and> fromObject (record_codec exampleRuntime [(''name'', string), (''age'', number)])
        (JObj (fmupd ''admin'' (JBool True) (fmupd ''age'' (JNum (Fin 18)) (fmupd ''name'' (JStr ''John'') fmempty))))
     = fromObject (record_codec exampleRuntime [(''name'', string), (''age'', number)])
        (JObj (fmupd ''age'' (JNum (Fin 18)) (fmupd ''name'' (JStr ''John'') fmempty)))"
proof -
  let ?rt = exampleRuntime
  let ?cs = "[(''name'', string), (''age'', number)]"
  let ?m' = "fmupd ''age'' (JNum (Fin 18)) (fmupd ''name'' (JStr ''John'') fmempty)"
  let ?m = "fmupd ''admin'' (JBool True) ?m'"
  have names: "''__proto__'' \<notin> set (map fst ?cs)"
    by simp
  have enc: "toObject (record_codec ?rt ?cs) (JObj ?m) = Inr (JObj ?m')"
    by (simp add: toObject_def record_codec_def enlarge_def forIn_def arrayIndex_def digit_def
        sel_def encodeRecord_def getProp_def string_def number_def)
  have dec: "fromObject (record_codec ?rt ?cs) (JObj ?m) = Inr (Success (JObj ?m'))"
    by (simp add: fromObject_record_codec decodeRecord_def enlarge_def forIn_def arrayIndex_def
        digit_def getProp_def string_def number_def)
  have agree: "list_all (\<lambda>k. fmlookup ?m k = fmlookup ?m' k) (map fst ?cs)"
    by simp
  note t = record_declared_fields [of ?cs ?rt "JObj ?m" "JObj ?m'" ?m ?m' "JObj ?m"]
  from t [THEN conjunct1] names enc
  have r1: "\<exists>res. JObj ?m' = JObj res \<and> fmdom res = fset_of_list (map fst ?cs)"
    by blast
  from t [THEN conjunct2, THEN conjunct1] agree
  have r2: "toObject (record_codec ?rt ?cs) (JObj ?m) = toObject (record_codec ?rt ?cs) (JObj ?m')"
    by blast
  from t [THEN conjunct2, THEN conjunct2, THEN conjunct2] names agree
  have r4: "fromObject (record_codec ?rt ?cs) (JObj ?m) = fromObject (record_codec ?rt ?cs) (JObj ?m')"
    by blast
  from names enc r1 agree r2 dec r4 show ?thesis
    by (intro conjI)
qed

section \<open>The round trip\<close>

text \<open>
  Where every item encodes to a tree that decodes to the item, the loops of the array
  codec take the array to the array of the trees and back. Where every field visited
  encodes the value to a truthy tree that decodes, the loops of the record codec store the
  trees and then the decoded values.
\<close>

lemma array_loops_round_trip:
  "(\<And>x. x \<in> set xs \<Longrightarrow> \<exists>t. encode (serde c) x = Inr t \<and> decode (serde c) t = Inr (Success x)) \<Longrightarrow>
   \<exists>ts. encodeArray_loop c xs = Inr ts \<and>
        (\<forall>acc. decodeArray_loop c ts acc = Inr (Success (JArr (acc @ xs))))"
proof (induction xs)
  case Nil
  then show ?case by simp
next
  case (Cons x xs)
  from Cons.prems [of x] obtain t where t: "encode (serde c) x = Inr t" "decode (serde c) t = Inr (Success x)"
    by auto
  from Cons.IH Cons.prems obtain ts where ts: "encodeArray_loop c xs = Inr ts"
    "\<And>acc. decodeArray_loop c ts acc = Inr (Success (JArr (acc @ xs)))"
    by auto
  show ?case
    using t ts by (intro exI [of _ "t # ts"]) simp
qed

lemma encodeRecord_loop_stores:
  "(\<And>k c. (k, c) \<in> set cs \<Longrightarrow> k \<noteq> ''__proto__'' \<and> encode (serde c) x = Inr (tr k)) \<Longrightarrow>
   \<exists>res'. encodeRecord_loop x cs (JObj res) = Inr (JObj res') \<and>
          (\<forall>k. fmlookup res' k = (if k \<in> fst ` set cs then Some (tr k) else fmlookup res k))"
proof (induction cs arbitrary: res)
  case Nil
  then show ?case by simp
next
  case (Cons kc cs)
  obtain k c where kc: "kc = (k, c)" by (cases kc)
  from Cons.prems [of k c] kc have k: "k \<noteq> ''__proto__''" "encode (serde c) x = Inr (tr k)"
    by auto
  have "\<exists>res'. encodeRecord_loop x cs (JObj (fmupd k (tr k) res)) = Inr (JObj res') \<and>
          (\<forall>k'. fmlookup res' k' = (if k' \<in> fst ` set cs then Some (tr k') else fmlookup (fmupd k (tr k) res) k'))"
    using Cons.prems by (intro Cons.IH) auto
  then obtain res' where res': "encodeRecord_loop x cs (JObj (fmupd k (tr k) res)) = Inr (JObj res')"
    "\<And>k'. fmlookup res' k' = (if k' \<in> fst ` set cs then Some (tr k') else fmlookup (fmupd k (tr k) res) k')"
    by blast
  have step: "encodeRecord_loop x (kc # cs) (JObj res) = encodeRecord_loop x cs (JObj (fmupd k (tr k) res))"
    using kc k by simp
  show ?case
    using res' kc unfolding step by (intro exI [of _ res']) auto
qed

lemma decodeRecord_loop_stores:
  "(\<And>k c. (k, c) \<in> set cs \<Longrightarrow>
      k \<noteq> ''__proto__'' \<and>
      (\<exists>tree. getProp rt data k = Inr tree \<and> truthy tree \<and> decode (serde c) tree = Inr (Success (dv k)))) \<Longrightarrow>
   \<exists>res'. decodeRecord_loop rt data cs (JObj res) = Inr (Success (JObj res')) \<and>
          (\<forall>k. fmlookup res' k = (if k \<in> fst ` set cs then Some (dv k) else fmlookup res k))"
proof (induction cs arbitrary: res)
  case Nil
  then show ?case by simp
next
  case (Cons kc cs)
  obtain k c where kc: "kc = (k, c)" by (cases kc)
  from Cons.prems [of k c] kc obtain tree where k: "k \<noteq> ''__proto__''"
    "getProp rt data k = Inr tree" "truthy tree" "decode (serde c) tree = Inr (Success (dv k))"
    by auto
  have "\<exists>res'. decodeRecord_loop rt data cs (JObj (fmupd k (dv k) res)) = Inr (Success (JObj res')) \<and>
          (\<forall>k'. fmlookup res' k' = (if k' \<in> fst ` set cs then Some (dv k') else fmlookup (fmupd k (dv k) res) k'))"
    using Cons.prems by (intro Cons.IH) auto
  then obtain res' where res': "decodeRecord_loop rt data cs (JObj (fmupd k (dv k) res)) = Inr (Success (JObj res'))"
    "\<And>k'. fmlookup res' k' = (if k' \<in> fst ` set cs then Some (dv k') else fmlookup (fmupd k (dv k) res) k')"
    by blast
  have step: "decodeRecord_loop rt data (kc # cs) (JObj res) = decodeRecord_loop rt data cs (JObj (fmupd k (dv k) res))"
    using kc k by simp
  show ?case
    using res' kc unfolding step by (intro exI [of _ res']) auto
qed

lemma record_loops_round_trip:
  assumes keys: "''__proto__'' \<notin> fst ` set cs"
    and field: "\<And>k c. (k, c) \<in> set cs \<Longrightarrow>
      encode (serde c) x = Inr (tr k) \<and> truthy (tr k) \<and> decode (serde c) (tr k) = Inr (Success (dv k))"
  shows "\<exists>enc dec. encodeRecord_loop x cs (JObj fmempty) = Inr (JObj enc)
      \<and> decodeRecord_loop rt (JObj enc) cs (JObj fmempty) = Inr (Success (JObj dec))
      \<and> (\<forall>k. fmlookup dec k = (if k \<in> fst ` set cs then Some (dv k) else None))"
proof -
  have "\<exists>res'. encodeRecord_loop x cs (JObj fmempty) = Inr (JObj res') \<and>
          (\<forall>k. fmlookup res' k = (if k \<in> fst ` set cs then Some (tr k) else fmlookup fmempty k))"
  proof (rule encodeRecord_loop_stores)
    fix k c assume "(k, c) \<in> set cs"
    with keys field show "k \<noteq> ''__proto__'' \<and> encode (serde c) x = Inr (tr k)" by force
  qed
  then obtain enc where enc: "encodeRecord_loop x cs (JObj fmempty) = Inr (JObj enc)"
    "\<And>k. fmlookup enc k = (if k \<in> fst ` set cs then Some (tr k) else None)"
    by auto
  have "\<exists>res'. decodeRecord_loop rt (JObj enc) cs (JObj fmempty) = Inr (Success (JObj res')) \<and>
          (\<forall>k. fmlookup res' k = (if k \<in> fst ` set cs then Some (dv k) else fmlookup fmempty k))"
  proof (rule decodeRecord_loop_stores)
    fix k c assume kc: "(k, c) \<in> set cs"
    with keys have "k \<noteq> ''__proto__''" by force
    moreover from kc have "k \<in> fst ` set cs" by force
    then have "getProp rt (JObj enc) k = Inr (tr k)" by (simp add: getProp_def enc(2))
    moreover have "truthy (tr k)" "decode (serde c) (tr k) = Inr (Success (dv k))"
      using field [OF kc] by simp_all
    ultimately show "k \<noteq> ''__proto__'' \<and>
        (\<exists>tree. getProp rt (JObj enc) k = Inr tree \<and> truthy tree \<and> decode (serde c) tree = Inr (Success (dv k)))"
      by blast
  qed
  then obtain dec where "decodeRecord_loop rt (JObj enc) cs (JObj fmempty) = Inr (Success (JObj dec))"
    "\<And>k. fmlookup dec k = (if k \<in> fst ` set cs then Some (dv k) else None)"
    by auto
  with enc(1) show ?thesis by blast
qed


lemma codec_of_round_trip:
  "encode_domain rt r v \<Longrightarrow>
   \<exists>tree. encode (serde (codec_of rt r)) v = Inr tree
     \<and> decode (serde (codec_of rt r)) tree = Inr (Success v)"
proof (induction r arbitrary: v)
  case RString
  then show ?case by (simp add: string_def)
next
  case RNumber
  then show ?case by (simp add: number_def)
next
  case RBoolean
  then show ?case by (simp add: boolean_def)
next
  case (RArray r)
  from RArray.prems obtain xs where v: "v = JArr xs" and xs: "list_all (encode_domain rt r) xs"
    by (auto split: jsval.splits)
  have "\<exists>t. encode (serde (codec_of rt r)) x = Inr t \<and> decode (serde (codec_of rt r)) t = Inr (Success x)"
    if "x \<in> set xs" for x
    using that xs RArray.IH by (simp add: list_all_iff)
  from array_loops_round_trip [of xs "codec_of rt r", OF this]
  obtain ts where "encodeArray_loop (codec_of rt r) xs = Inr ts"
    "\<And>acc. decodeArray_loop (codec_of rt r) ts acc = Inr (Success (JArr (acc @ xs)))"
    by blast
  then show ?case by (simp add: v array_def)
next
  case (RRecord spec)
  let ?cs = "map (\<lambda>(key, r). (key, codec_of rt r)) spec"
  let ?L = "forIn (enlarge rt ?cs)"
  from RRecord.prems obtain m where v: "v = JObj m"
    and uniq: "distinct (map fst spec)"
    and dom: "fmdom m = fset_of_list (map fst spec)"
    and typed: "list_all (\<lambda>(key, r).
              key \<noteq> ''__proto__'' \<and>
              (case fmlookup m key of
                 None \<Rightarrow> False
               | Some x \<Rightarrow>
                   encode_domain rt r x \<and>
                   (case toObject (codec_of rt r) x of Inl e \<Rightarrow> False | Inr tree \<Rightarrow> truthy tree))) spec"
    by (auto split: jsval.splits)
  define dv where "dv k = the (fmlookup m k)" for k
  define tr where "tr k = (case map_of spec k of
      None \<Rightarrow> JUndefined
    | Some r \<Rightarrow> (case encode (serde (codec_of rt r)) (dv k) of Inl e \<Rightarrow> JUndefined | Inr t \<Rightarrow> t))" for k
  have keys: "map fst ?cs = map fst spec" by (induction spec) auto
  have no_proto: "''__proto__'' \<notin> set (map fst ?cs)"
    using typed unfolding keys by (auto simp: list_all_iff)
  have key_set: "fst ` set ?L = fst ` set spec"
    using enlarge_key_set [OF no_proto, of rt] keys by (metis set_forIn set_map)
  have spec_field: "fmlookup m k = Some (dv k) \<and> encode (serde (codec_of rt r)) (dv k) = Inr (tr k)
      \<and> truthy (tr k) \<and> decode (serde (codec_of rt r)) (tr k) = Inr (Success (dv k))"
    if "(k, r) \<in> set spec" for k r
  proof -
    from that uniq have look: "map_of spec k = Some r" by simp
    from typed that obtain x where x: "fmlookup m k = Some x" "encode_domain rt r x"
      "case toObject (codec_of rt r) x of Inl e \<Rightarrow> False | Inr tree \<Rightarrow> truthy tree"
      by (auto simp: list_all_iff split: option.splits)
    from RRecord.IH [of "(k, r)" r x] that x(2) obtain tree where
      tree: "encode (serde (codec_of rt r)) x = Inr tree" "decode (serde (codec_of rt r)) tree = Inr (Success x)"
      by auto
    from x(3) tree(1) have "truthy tree" by (simp add: toObject_def)
    with x(1) tree look show ?thesis by (simp add: tr_def dv_def)
  qed
  have "\<exists>enc dec. encodeRecord_loop (JObj m) ?L (JObj fmempty) = Inr (JObj enc)
      \<and> decodeRecord_loop rt (JObj enc) ?L (JObj fmempty) = Inr (Success (JObj dec))
      \<and> (\<forall>k. fmlookup dec k = (if k \<in> fst ` set ?L then Some (dv k) else None))"
  proof (rule record_loops_round_trip)
    show "''__proto__'' \<notin> fst ` set ?L"
      using typed unfolding key_set by (auto simp: list_all_iff)
  next
    fix k c assume "(k, c) \<in> set ?L"
    then obtain r where r: "(k, r) \<in> set spec" and c: "c = sel (codec_of rt r) (\<lambda>x. getProp rt x k)"
      by (auto simp: enlarge_plain [OF no_proto])
    from spec_field [OF r] c
    show "encode (serde c) (JObj m) = Inr (tr k) \<and> truthy (tr k) \<and> decode (serde c) (tr k) = Inr (Success (dv k))"
      by (simp add: sel_def getProp_def)
  qed
  then obtain enc dec where loops: "encodeRecord_loop (JObj m) ?L (JObj fmempty) = Inr (JObj enc)"
    "decodeRecord_loop rt (JObj enc) ?L (JObj fmempty) = Inr (Success (JObj dec))"
    "\<And>k. fmlookup dec k = (if k \<in> fst ` set spec then Some (dv k) else None)"
    unfolding key_set by blast
  have "dec = m"
  proof (rule fmap_ext)
    fix k
    show "fmlookup dec k = fmlookup m k"
    proof (cases "k \<in> fst ` set spec")
      case True
      then obtain r where "(k, r) \<in> set spec" by force
      from spec_field [OF this] True loops(3) show ?thesis by simp
    next
      case False
      then have "k |\<notin>| fmdom m" using dom by (simp add: fset_of_list.rep_eq)
      then have "fmlookup m k = None" by (simp add: fmdom_notD)
      with False loops(3) show ?thesis by simp
    qed
  qed
  with loops(1,2) show ?case
    by (simp add: v record_codec_def Let_def encodeRecord_def decodeRecord_def)
next
  case (RMapSel r f ex)
  from RMapSel.prems obtain x where x: "ex v = Inr x" "encode_domain rt r x" "f x = Inr v"
    by (auto split: sum.splits)
  from RMapSel.IH [OF x(2)] obtain tree where "encode (serde (codec_of rt r)) x = Inr tree"
    "decode (serde (codec_of rt r)) tree = Inr (Success x)"
    by blast
  with x(1,3) show ?case by (simp add: sel_def map_codec_def)
next
  case (RMapRecord spec f)
  let ?cs = "map (\<lambda>(key, r, ex). (key, sel (codec_of rt r) ex)) spec"
  let ?L = "forIn ?cs"
  let ?obj = "fmap_of_list (map (\<lambda>(key, r, ex). (key, case ex v of Inl e \<Rightarrow> JUndefined | Inr x \<Rightarrow> x)) spec)"
  from RMapRecord.prems have uniq: "distinct (map fst spec)"
    and typed: "list_all (\<lambda>(key, r, ex).
          key \<noteq> ''__proto__'' \<and>
          (case ex v of
             Inl e \<Rightarrow> False
           | Inr x \<Rightarrow>
               encode_domain rt r x \<and>
               (case toObject (codec_of rt r) x of Inl e \<Rightarrow> False | Inr tree \<Rightarrow> truthy tree))) spec"
    and undone: "f (JObj ?obj) = Inr v"
    by simp_all
  define dv where "dv k = (case map_of spec k of
      None \<Rightarrow> JUndefined
    | Some (r, ex) \<Rightarrow> (case ex v of Inl e \<Rightarrow> JUndefined | Inr x \<Rightarrow> x))" for k
  define tr where "tr k = (case map_of spec k of
      None \<Rightarrow> JUndefined
    | Some (r, ex) \<Rightarrow> (case encode (serde (codec_of rt r)) (dv k) of Inl e \<Rightarrow> JUndefined | Inr t \<Rightarrow> t))" for k
  have key_set: "fst ` set ?L = fst ` set spec"
    by force
  have spec_field: "ex v = Inr (dv k) \<and> encode (serde (codec_of rt r)) (dv k) = Inr (tr k)
      \<and> truthy (tr k) \<and> decode (serde (codec_of rt r)) (tr k) = Inr (Success (dv k))"
    if "(k, r, ex) \<in> set spec" for k r ex
  proof -
    from that uniq have look: "map_of spec k = Some (r, ex)" by simp
    from typed that have "case ex v of
             Inl e \<Rightarrow> False
           | Inr x \<Rightarrow>
               encode_domain rt r x \<and>
               (case toObject (codec_of rt r) x of Inl e \<Rightarrow> False | Inr tree \<Rightarrow> truthy tree)"
      unfolding list_all_iff by fast
    then obtain x where x: "ex v = Inr x" "encode_domain rt r x"
      "case toObject (codec_of rt r) x of Inl e \<Rightarrow> False | Inr tree \<Rightarrow> truthy tree"
      by (cases "ex v") auto
    from RMapRecord.IH [of "(k, r, ex)" "(r, ex)" r x] that x(2) obtain tree where
      tree: "encode (serde (codec_of rt r)) x = Inr tree" "decode (serde (codec_of rt r)) tree = Inr (Success x)"
      by auto
    from x(3) tree(1) have "truthy tree" by (simp add: toObject_def)
    with x(1) tree look show ?thesis by (simp add: tr_def dv_def)
  qed
  have "\<exists>enc dec. encodeRecord_loop v ?L (JObj fmempty) = Inr (JObj enc)
      \<and> decodeRecord_loop rt (JObj enc) ?L (JObj fmempty) = Inr (Success (JObj dec))
      \<and> (\<forall>k. fmlookup dec k = (if k \<in> fst ` set ?L then Some (dv k) else None))"
  proof (rule record_loops_round_trip)
    show "''__proto__'' \<notin> fst ` set ?L"
      using typed unfolding key_set by (auto simp: list_all_iff)
  next
    fix k c assume "(k, c) \<in> set ?L"
    then obtain r ex where r: "(k, r, ex) \<in> set spec" and c: "c = sel (codec_of rt r) ex"
      by auto
    from spec_field [OF r] c
    show "encode (serde c) v = Inr (tr k) \<and> truthy (tr k) \<and> decode (serde c) (tr k) = Inr (Success (dv k))"
      by (simp add: sel_def)
  qed
  then obtain enc dec where loops: "encodeRecord_loop v ?L (JObj fmempty) = Inr (JObj enc)"
    "decodeRecord_loop rt (JObj enc) ?L (JObj fmempty) = Inr (Success (JObj dec))"
    "\<And>k. fmlookup dec k = (if k \<in> fst ` set spec then Some (dv k) else None)"
    unfolding key_set by blast
  have "dec = ?obj"
  proof (rule fmap_ext)
    fix k
    have "map_of (map (\<lambda>(key, r, ex). (key, case ex v of Inl e \<Rightarrow> JUndefined | Inr x \<Rightarrow> x)) spec) k
        = (if k \<in> fst ` set spec then Some (dv k) else None)"
      unfolding dv_def by (induction spec) (auto split: sum.splits)
    with loops(3) show "fmlookup dec k = fmlookup ?obj k"
      by (simp add: fmlookup_of_list)
  qed
  with loops(1,2) undone show ?case
    by (simp add: mapRecord_def map_codec_def sameRecord_def encodeRecord_def decodeRecord_def)
qed

text \<open>
  C1. For every codec built from \<^verbatim>\<open>string\<close>, \<^verbatim>\<open>number\<close>, \<^verbatim>\<open>boolean\<close>, \<^verbatim>\<open>array\<close>,
  \<^verbatim>\<open>record\<close>, \<^verbatim>\<open>c.map(f).sel(extract)\<close> and \<^verbatim>\<open>mapRecord\<close>, nested in any way, and every
  value \<open>v\<close> of its encode domain: encoding \<open>v\<close> returns a tree, and decoding that tree
  succeeds with \<open>v\<close>. The encode domain leaves out the records with a field whose encoding
  is falsy or whose name is \<^verbatim>\<open>__proto__\<close> and the objects with entries that are not
  declared, and holds of a transformed value where \<open>f\<close> gives the value back from what
  was extracted. For \<^verbatim>\<open>c.map(f)\<close> and \<^verbatim>\<open>mapRecord(codecs, f)\<close> alone, the round trip
  succeeds with \<open>f\<close> applied to the value that the round trip of the underlying codec
  succeeds with.
\<close>

theorem round_trip:
  "(encode_domain rt r v \<longrightarrow>
      (\<exists>tree. toObject (codec_of rt r) v = Inr tree \<and> fromObject (codec_of rt r) tree = Inr (Success v)))
   \<and> (toObject c x = Inr tree \<and> fromObject c tree = Inr (Success a) \<and> f a = Inr b \<longrightarrow>
        toObject (map_codec c f) x = Inr tree \<and> fromObject (map_codec c f) tree = Inr (Success b))
   \<and> (toObject (sameRecord rt cs) z = Inr tree' \<and> fromObject (sameRecord rt cs) tree' = Inr (Success a')
        \<and> g a' = Inr b' \<longrightarrow>
        toObject (mapRecord rt cs g) z = Inr tree' \<and> fromObject (mapRecord rt cs g) tree' = Inr (Success b'))"
proof -
  have built: "\<exists>tree. toObject (codec_of rt r) v = Inr tree \<and> fromObject (codec_of rt r) tree = Inr (Success v)"
    if "encode_domain rt r v"
    using codec_of_round_trip [OF that] by (simp add: toObject_def fromObject_def)
  show ?thesis
    using built by (simp add: toObject_def fromObject_def map_codec_def mapRecord_def)
qed

text \<open>
  The law does not hold for every codec and value: the record \<^verbatim>\<open>{n: 0}\<close> encodes to a
  tree that \<^verbatim>\<open>record({n: number})\<close> does not decode, and the round trip of
  \<^verbatim>\<open>number.map(n => new Int(n))\<close> on \<^verbatim>\<open>1\<close> succeeds with the object \<^verbatim>\<open>{num: 1}\<close>, not
  with \<^verbatim>\<open>1\<close>.
\<close>

theorem round_trip_counterexample:
  "\<forall>rt.
     toObject (record_codec rt [(''n'', number)]) (JObj (fmupd ''n'' (JNum (Fin 0)) fmempty))
       = Inr (JObj (fmupd ''n'' (JNum (Fin 0)) fmempty))
     \<and> fromObject (record_codec rt [(''n'', number)]) (JObj (fmupd ''n'' (JNum (Fin 0)) fmempty))
       = Inr (Failure ''missing field n'')
     \<and> toObject (map_codec number (\<lambda>n. Inr (JObj (fmupd ''num'' n fmempty)))) (JNum (Fin 1))
       = Inr (JNum (Fin 1))
     \<and> fromObject (map_codec number (\<lambda>n. Inr (JObj (fmupd ''num'' n fmempty)))) (JNum (Fin 1))
       = Inr (Success (JObj (fmupd ''num'' (JNum (Fin 1)) fmempty)))
     \<and> JObj (fmupd ''num'' (JNum (Fin 1)) fmempty) \<noteq> JNum (Fin 1)"
  by (simp add: toObject_def fromObject_def record_codec_def enlarge_def forIn_def arrayIndex_def
      digit_def sel_def encodeRecord_def decodeRecord_def getProp_def map_codec_def number_def)

theorem round_trip_witness:
  "encode_domain exampleRuntime
      (RRecord [(''name'', RString),
                (''age'', RMapSel RNumber (\<lambda>n. Inr (JObj (fmupd ''num'' n fmempty)))
                                          (\<lambda>x. getProp exampleRuntime x ''num'')),
                (''tags'', RArray RString)])
      (JObj (fmupd ''tags'' (JArr [JStr ''a'', JStr ''b''])
        (fmupd ''age'' (JObj (fmupd ''num'' (JNum (Fin 18)) fmempty))
          (fmupd ''name'' (JStr ''John'') fmempty))))
   \<and> toObject (codec_of exampleRuntime
      (RRecord [(''name'', RString),
                (''age'', RMapSel RNumber (\<lambda>n. Inr (JObj (fmupd ''num'' n fmempty)))
                                          (\<lambda>x. getProp exampleRuntime x ''num'')),
                (''tags'', RArray RString)]))
      (JObj (fmupd ''tags'' (JArr [JStr ''a'', JStr ''b''])
        (fmupd ''age'' (JObj (fmupd ''num'' (JNum (Fin 18)) fmempty))
          (fmupd ''name'' (JStr ''John'') fmempty))))
     = Inr (JObj (fmupd ''tags'' (JArr [JStr ''a'', JStr ''b''])
        (fmupd ''age'' (JNum (Fin 18)) (fmupd ''name'' (JStr ''John'') fmempty))))
   \<and> fromObject (codec_of exampleRuntime
      (RRecord [(''name'', RString),
                (''age'', RMapSel RNumber (\<lambda>n. Inr (JObj (fmupd ''num'' n fmempty)))
                                          (\<lambda>x. getProp exampleRuntime x ''num'')),
                (''tags'', RArray RString)]))
      (JObj (fmupd ''tags'' (JArr [JStr ''a'', JStr ''b''])
        (fmupd ''age'' (JNum (Fin 18)) (fmupd ''name'' (JStr ''John'') fmempty))))
     = Inr (Success (JObj (fmupd ''tags'' (JArr [JStr ''a'', JStr ''b''])
        (fmupd ''age'' (JObj (fmupd ''num'' (JNum (Fin 18)) fmempty))
          (fmupd ''name'' (JStr ''John'') fmempty)))))
   \<and> fromObject (map_codec number (\<lambda>n. Inr (JObj (fmupd ''num'' n fmempty)))) (JNum (Fin 1))
     = Inr (Success (JObj (fmupd ''num'' (JNum (Fin 1)) fmempty)))
   \<and> toObject (mapRecord exampleRuntime
          [(''name'', sel string (\<lambda>u. getProp exampleRuntime u ''name'')),
           (''age'', sel number (\<lambda>u. getProp exampleRuntime u ''age''))] Inr)
        (JObj (fmupd ''age'' (JNum (Fin 18)) (fmupd ''name'' (JStr ''John'') fmempty)))
     = Inr (JObj (fmupd ''age'' (JNum (Fin 18)) (fmupd ''name'' (JStr ''John'') fmempty)))
   \<and> fromObject (mapRecord exampleRuntime
          [(''name'', sel string (\<lambda>u. getProp exampleRuntime u ''name'')),
           (''age'', sel number (\<lambda>u. getProp exampleRuntime u ''age''))] Inr)
        (JObj (fmupd ''age'' (JNum (Fin 18)) (fmupd ''name'' (JStr ''John'') fmempty)))
     = Inr (Success (JObj (fmupd ''age'' (JNum (Fin 18)) (fmupd ''name'' (JStr ''John'') fmempty))))"
proof -
  let ?rt = exampleRuntime
  let ?Int = "\<lambda>n. Inr (JObj (fmupd ''num'' n fmempty)) :: exn + jsval"
  let ?r = "RRecord [(''name'', RString),
                (''age'', RMapSel RNumber ?Int (\<lambda>x. getProp ?rt x ''num'')),
                (''tags'', RArray RString)]"
  let ?john = "fmupd ''age'' (JNum (Fin 18)) (fmupd ''name'' (JStr ''John'') fmempty)"
  let ?v = "JObj (fmupd ''tags'' (JArr [JStr ''a'', JStr ''b''])
        (fmupd ''age'' (JObj (fmupd ''num'' (JNum (Fin 18)) fmempty))
          (fmupd ''name'' (JStr ''John'') fmempty)))"
  let ?tree = "JObj (fmupd ''tags'' (JArr [JStr ''a'', JStr ''b'']) ?john)"
  let ?one = "JObj (fmupd ''num'' (JNum (Fin 1)) fmempty)"
  let ?cs = "[(''name'', sel string (\<lambda>u. getProp ?rt u ''name'')), (''age'', sel number (\<lambda>u. getProp ?rt u ''age''))]"
  have dom: "encode_domain ?rt ?r ?v"
    by (auto simp: toObject_def sel_def map_codec_def getProp_def string_def number_def array_def)
  have enc: "toObject (codec_of ?rt ?r) ?v = Inr ?tree"
    by (simp add: toObject_def record_codec_def enlarge_def forIn_def arrayIndex_def digit_def
        sel_def map_codec_def encodeRecord_def getProp_def string_def number_def array_def)
  have num: "toObject number (JNum (Fin 1)) = Inr (JNum (Fin 1))"
    "fromObject number (JNum (Fin 1)) = Inr (Success (JNum (Fin 1)))"
    by (simp_all add: toObject_def fromObject_def number_def)
  have user: "toObject (sameRecord ?rt ?cs) (JObj ?john) = Inr (JObj ?john)"
    "fromObject (sameRecord ?rt ?cs) (JObj ?john) = Inr (Success (JObj ?john))"
    by (simp_all add: toObject_def fromObject_def sameRecord_def sel_def encodeRecord_def
        decodeRecord_def forIn_def arrayIndex_def digit_def getProp_def string_def number_def)
  note rt = round_trip [of ?rt ?r ?v number "JNum (Fin 1)" "JNum (Fin 1)" "JNum (Fin 1)" ?Int ?one]
  note rt_user = round_trip [of ?rt _ _ _ _ _ _ _ _ ?cs "JObj ?john" "JObj ?john" "JObj ?john" Inr "JObj ?john"]
  from rt [THEN conjunct1] dom obtain tree where tree: "toObject (codec_of ?rt ?r) ?v = Inr tree"
    "fromObject (codec_of ?rt ?r) tree = Inr (Success ?v)"
    by blast
  from tree enc have dec: "fromObject (codec_of ?rt ?r) ?tree = Inr (Success ?v)"
    by simp
  from rt [THEN conjunct2, THEN conjunct1] num
  have mapped: "fromObject (map_codec number ?Int) (JNum (Fin 1)) = Inr (Success ?one)"
    by simp
  from rt_user [THEN conjunct2, THEN conjunct2] user
  have users: "toObject (mapRecord ?rt ?cs Inr) (JObj ?john) = Inr (JObj ?john)"
    "fromObject (mapRecord ?rt ?cs Inr) (JObj ?john) = Inr (Success (JObj ?john))"
    by simp_all
  from dom enc dec mapped users show ?thesis
    by (intro conjI)
qed

section \<open>Decoding from text\<close>

text \<open>
  C2. For every codec, \<^verbatim>\<open>fromJSON\<close> on a text that \<^verbatim>\<open>JSON.parse\<close> accepts returns what
  \<^verbatim>\<open>fromObject\<close> returns on the parsed tree. On a text on which \<^verbatim>\<open>JSON.parse\<close> raises,
  \<^verbatim>\<open>fromJSON\<close> raises the same exception: it is not caught, and no \<^verbatim>\<open>Result\<close> is
  returned.
\<close>

theorem fromJSON_parse_fault:
  "(parse json = Inl e \<longrightarrow> fromJSON parse c json = Inl e)
   \<and> (parse json = Inr d \<longrightarrow> fromJSON parse c json = fromObject c d)"
  by (simp add: fromJSON_def fromObject_def)

text \<open>
  For any parser that, as \<^verbatim>\<open>JSON.parse\<close> does, raises a \<^verbatim>\<open>SyntaxError\<close> on the text
  \<^verbatim>\<open>{\<close>, it is not the case that \<^verbatim>\<open>number.fromJSON\<close> returns a failure on that text.
\<close>

theorem fromJSON_parse_fault_counterexample:
  "\<not> (\<forall>parse. parse ''{'' = Inl SyntaxError \<longrightarrow>
         (\<exists>m. fromJSON parse number ''{'' = Inr (Failure m)))"
proof
  assume caught: "\<forall>parse. parse ''{'' = Inl SyntaxError \<longrightarrow>
         (\<exists>m. fromJSON parse number ''{'' = Inr (Failure m))"
  from caught have "(\<lambda>text. Inl SyntaxError :: exn + jsval) ''{'' = Inl SyntaxError \<longrightarrow>
      (\<exists>m. fromJSON (\<lambda>text. Inl SyntaxError) number ''{'' = Inr (Failure m))"
    by (rule spec)
  then show False by (simp add: fromJSON_def)
qed

theorem fromJSON_parse_fault_witness:
  "(\<lambda>text. if text = ''1'' then Inr (JNum (Fin 1)) else Inl SyntaxError) ''{'' = Inl SyntaxError
   \<and> fromJSON (\<lambda>text. if text = ''1'' then Inr (JNum (Fin 1)) else Inl SyntaxError) number ''{''
       = Inl SyntaxError
   \<and> (\<lambda>text. if text = ''1'' then Inr (JNum (Fin 1)) else Inl SyntaxError) ''1'' = Inr (JNum (Fin 1))
   \<and> fromJSON (\<lambda>text. if text = ''1'' then Inr (JNum (Fin 1)) else Inl SyntaxError) number ''1''
       = Inr (Success (JNum (Fin 1)))"
  using fromJSON_parse_fault [of "\<lambda>text. if text = ''1'' then Inr (JNum (Fin 1)) else Inl SyntaxError"
      "''{''" SyntaxError number]
    fromJSON_parse_fault [of "\<lambda>text. if text = ''1'' then Inr (JNum (Fin 1)) else Inl SyntaxError"
      "''1''" _ number "JNum (Fin 1)"]
  by (simp add: fromObject_def number_def)

end
